theory Spec2Isabelle
  imports Main "HOL-Library.Word"
begin

section \<open>The XPA connector of lsst.display.ds9 (python/lsst/display/ds9/xpa.cc)\<close>

subsection \<open>Data\<close>

text \<open>
  \<^verbatim>\<open>XPA\<close> is a pointer to the transport's \<^verbatim>\<open>struct xparec\<close>: \<open>None\<close> is \<^verbatim>\<open>NULL\<close>,
  \<open>Some a\<close> the session at address \<open>a\<close>.

  A \<^verbatim>\<open>char *\<close> is \<open>None\<close> for \<^verbatim>\<open>NULL\<close> and otherwise \<open>Some bs\<close>, where \<open>bs\<close> holds
  every byte of the array pointed to (a terminating NUL, when there is one, is one of
  them). A string literal \<^verbatim>\<open>"w"\<close> is therefore the array \<open>''w'' @ [NUL]\<close>.

  \<^verbatim>\<open>int\<close> is 32 bits wide (the LP64 platforms the package is built for), read as two's
  complement.
\<close>

type_synonym XPA = "nat option"
type_synonym charp = "string option"
type_synonym cint = "32 word"

definition NUL :: char where
  "NUL = CHR 0x00"

definition literal :: "string \<Rightarrow> charp" where
  "literal s = Some (s @ [NUL])"

text \<open>
  \<^verbatim>\<open>strlen(buf)\<close>: the number of bytes before the first NUL. On a null pointer, or on an
  array that holds no NUL, the C function reads outside any object: that is undefined
  behaviour, here \<open>None\<close>.
\<close>

fun strlen :: "charp \<Rightarrow> nat option" where
  "strlen None = None"
| "strlen (Some bs) =
     (if NUL \<in> set bs then Some (length (takeWhile (\<lambda>c. c \<noteq> NUL) bs)) else None)"

text \<open>What a C-string reader (such as the host-language binding) sees behind a pointer.\<close>

fun c_str :: "charp \<Rightarrow> string option" where
  "c_str None = None"
| "c_str (Some bs) =
     (if NUL \<in> set bs then Some (takeWhile (\<lambda>c. c \<noteq> NUL) bs) else None)"

text \<open>
  \<^verbatim>\<open>lsst::pex::exceptions::IoError\<close> with its message is the only exception the file throws;
  \<open>Undefined\<close> marks undefined behaviour of the C++ program.
\<close>

datatype error = IoError string | Undefined

text \<open>
  The transport (\<^verbatim>\<open>xpa.h\<close>) is external. Every call the connector makes to it is recorded,
  oldest first, with the arguments passed (the constant arguments \<^verbatim>\<open>NULL\<close> and \<open>1\<close> and
  the out-parameters are left out) and, for \<^verbatim>\<open>XPAOpen\<close>, the handle it returned.
\<close>

datatype call =
    Call_XPAOpen charp XPA
  | Call_XPAClose XPA
  | Call_XPAGet XPA charp charp charp
  | Call_XPASet XPA charp charp charp charp cint
  | Call_XPASetFd XPA charp charp charp cint

text \<open>
  The process state the file owns: the function-local static \<^verbatim>\<open>singleton\<close> of
  \<^verbatim>\<open>myXPA::get\<close> (class \<^verbatim>\<open>myXPA\<close> has no non-static member, so only whether the pointer is
  null matters), the static member \<^verbatim>\<open>myXPA::_xpa\<close>, and the record of transport calls.
\<close>

record world =
  singleton :: bool
  myXPA_xpa :: XPA
  calls :: "call list"

definition initial :: world where
  "initial = \<lparr>singleton = False, myXPA_xpa = None, calls = []\<rparr>"

definition record_call :: "call \<Rightarrow> world \<Rightarrow> world" where
  "record_call c w = w\<lparr>calls := calls w @ [c]\<rparr>"

subsection \<open>class myXPA\<close>

text \<open>
  What the transport answers is an argument of the operation that asks: \<open>opened\<close> is the
  value \<^verbatim>\<open>XPAOpen\<close> returns if it is called.

  \<^verbatim>\<open>myXPA(char const *mode) { _xpa = XPAOpen((char *)mode); if (_xpa == NULL) throw ...; }\<close>
\<close>

definition myXPA_ctor :: "charp \<Rightarrow> XPA \<Rightarrow> world \<Rightarrow> (error + unit) \<times> world" where
  "myXPA_ctor mode opened w =
     (let w1 = (record_call (Call_XPAOpen mode opened) w)\<lparr>myXPA_xpa := opened\<rparr>
      in if myXPA_xpa w1 = None then (Inl (IoError ''Unable to open XPA''), w1)
         else (Inr (), w1))"

text \<open>\<^verbatim>\<open>~myXPA() { XPAClose(_xpa); }\<close>\<close>

definition myXPA_dtor :: "world \<Rightarrow> world" where
  "myXPA_dtor w = record_call (Call_XPAClose (myXPA_xpa w)) w"

text \<open>
  \<^verbatim>\<open>static XPA get(bool reset = false)\<close>. When the constructor throws inside
  \<^verbatim>\<open>new myXPA("w")\<close> the assignment to \<^verbatim>\<open>singleton\<close> does not happen.
\<close>

definition myXPA_get :: "bool \<Rightarrow> XPA \<Rightarrow> world \<Rightarrow> (error + XPA) \<times> world" where
  "myXPA_get do_reset opened w =
     (let w1 = (if do_reset \<and> singleton w then (myXPA_dtor w)\<lparr>singleton := False\<rparr> else w)
      in if \<not> singleton w1 then
           (case myXPA_ctor (literal ''w'') opened w1 of
              (Inl e, w2) \<Rightarrow> (Inl e, w2)
            | (Inr u, w2) \<Rightarrow> (Inr (myXPA_xpa w2), w2\<lparr>singleton := True\<rparr>))
         else (Inr (myXPA_xpa w1), w1))"

text \<open>\<^verbatim>\<open>void reset() { myXPA::get(true); }\<close>\<close>

definition reset :: "XPA \<Rightarrow> world \<Rightarrow> (error + unit) \<times> world" where
  "reset opened w =
     (case myXPA_get True opened w of
        (Inl e, w1) \<Rightarrow> (Inl e, w1)
      | (Inr h, w1) \<Rightarrow> (Inr (), w1))"

text \<open>The specification's \<open>acquire()\<close> is \<^verbatim>\<open>myXPA::get()\<close> with the default argument.\<close>

definition acquire :: "XPA \<Rightarrow> world \<Rightarrow> (error + XPA) \<times> world" where
  "acquire opened w = myXPA_get False opened w"

subsection \<open>The request wrappers\<close>

text \<open>\<^verbatim>\<open>if (xpa == NULL) { xpa = myXPA::get(); }\<close>\<close>

definition resolve :: "XPA \<Rightarrow> XPA \<Rightarrow> world \<Rightarrow> (error + XPA) \<times> world" where
  "resolve xpa opened w = (if xpa = None then myXPA_get False opened w else (Inr xpa, w))"

text \<open>
  \<^verbatim>\<open>XPAGet1\<close>. The transport's answer is \<open>(n, buf, error)\<close>: the value \<^verbatim>\<open>XPAGet\<close> returns
  and what it stores through \<^verbatim>\<open>&buf\<close> and \<^verbatim>\<open>&error\<close> (the length stored through \<^verbatim>\<open>&len\<close>
  is ignored by the code).
\<close>

definition XPAGet1 ::
  "XPA \<Rightarrow> charp \<Rightarrow> charp \<Rightarrow> charp \<Rightarrow> XPA \<Rightarrow> cint \<times> charp \<times> charp \<Rightarrow> world
     \<Rightarrow> (error + charp) \<times> world" where
  "XPAGet1 xpa xtemplate paramlist mode opened answer w =
     (case resolve xpa opened w of
        (Inl e, w1) \<Rightarrow> (Inl e, w1)
      | (Inr xpa1, w1) \<Rightarrow>
          (case answer of (n, buf, err) \<Rightarrow>
             (let w2 = record_call (Call_XPAGet xpa1 xtemplate paramlist mode) w1
              in if n = 0 then (Inl (IoError ''XPAGet returned 0''), w2)
                 else if err \<noteq> None then (Inr err, w2)
                 else if buf = None
                   then (Inl (IoError ''XPAGet returned a null buffer pointer''), w2)
                 else (Inr buf, w2))))"

text \<open>
  \<^verbatim>\<open>XPASet1\<close>. \<^verbatim>\<open>len = strlen(buf)\<close> converts a \<^verbatim>\<open>size_t\<close> to \<^verbatim>\<open>int\<close>, which keeps
  the low 32 bits. The transport's answer is \<open>(n, error)\<close>.
\<close>

definition XPASet1 ::
  "XPA \<Rightarrow> charp \<Rightarrow> charp \<Rightarrow> charp \<Rightarrow> charp \<Rightarrow> cint \<Rightarrow> XPA \<Rightarrow> cint \<times> charp \<Rightarrow> world
     \<Rightarrow> (error + charp) \<times> world" where
  "XPASet1 xpa xtemplate paramlist mode buf len opened answer w =
     (case (if sint len < 0 then map_option word_of_nat (strlen buf) else Some len) of
        None \<Rightarrow> (Inl Undefined, w)
      | Some len1 \<Rightarrow>
          (case resolve xpa opened w of
             (Inl e, w1) \<Rightarrow> (Inl e, w1)
           | (Inr xpa1, w1) \<Rightarrow>
               (case answer of (n, err) \<Rightarrow>
                  (let w2 = record_call (Call_XPASet xpa1 xtemplate paramlist mode buf len1) w1
                   in if n = 0 then (Inl (IoError ''XPASet returned 0''), w2)
                      else if err \<noteq> None then (Inr err, w2)
                      else (Inr (literal []), w2)))))"

text \<open>\<^verbatim>\<open>XPASetFd1\<close>.\<close>

definition XPASetFd1 ::
  "XPA \<Rightarrow> charp \<Rightarrow> charp \<Rightarrow> charp \<Rightarrow> cint \<Rightarrow> XPA \<Rightarrow> cint \<times> charp \<Rightarrow> world
     \<Rightarrow> (error + charp) \<times> world" where
  "XPASetFd1 xpa xtemplate paramlist mode fd opened answer w =
     (case resolve xpa opened w of
        (Inl e, w1) \<Rightarrow> (Inl e, w1)
      | (Inr xpa1, w1) \<Rightarrow>
          (case answer of (n, err) \<Rightarrow>
             (let w2 = record_call (Call_XPASetFd xpa1 xtemplate paramlist mode fd) w1
              in if n = 0 then (Inl (IoError ''XPASetFd returned 0''), w2)
                 else if err \<noteq> None then (Inr err, w2)
                 else (Inr (literal []), w2))))"

text \<open>
  The binding \<^verbatim>\<open>mod.def("set", &XPASet1, ..., "len"_a = -1)\<close>: a caller that leaves the
  length out gets \<open>-1\<close>.
\<close>

definition set_binding ::
  "XPA \<Rightarrow> charp \<Rightarrow> charp \<Rightarrow> charp \<Rightarrow> charp \<Rightarrow> cint option \<Rightarrow> XPA \<Rightarrow> cint \<times> charp \<Rightarrow> world
     \<Rightarrow> (error + charp) \<times> world" where
  "set_binding xpa xtemplate paramlist mode buf len opened answer w =
     XPASet1 xpa xtemplate paramlist mode buf (case len of None \<Rightarrow> - 1 | Some l \<Rightarrow> l)
       opened answer w"

text \<open>Whether handle resolution reaches the transport request.\<close>

definition resolves :: "XPA \<Rightarrow> XPA \<Rightarrow> world \<Rightarrow> bool" where
  "resolves xpa opened w = (xpa \<noteq> None \<or> singleton w \<or> opened \<noteq> None)"

subsection \<open>Process exit\<close>

text \<open>
  The file registers nothing to run at exit, and the two objects with static storage
  duration, \<^verbatim>\<open>singleton\<close> (a \<^verbatim>\<open>myXPA *\<close>) and \<^verbatim>\<open>myXPA::_xpa\<close> (an \<^verbatim>\<open>XPA\<close>), are plain
  pointers: ending the process destroys no \<^verbatim>\<open>myXPA\<close> object, so \<^verbatim>\<open>~myXPA\<close> does not run
  and no transport call is made. \<^verbatim>\<open>delete singleton\<close> in \<^verbatim>\<open>myXPA::get\<close> is the only place
  the destructor runs.
\<close>

definition process_exit :: "world \<Rightarrow> world" where
  "process_exit w = w"

subsection \<open>Programs: sequences of operations\<close>

text \<open>
  A caller performs the operations one after the other, each with the answers the
  transport gives during it. A thrown \<^verbatim>\<open>IoError\<close> reaches the caller, who may go on;
  after undefined behaviour there is no state to go on from (\<open>None\<close>).
\<close>

datatype op =
    Acquire XPA
  | Reset XPA
  | Get XPA charp charp charp XPA "cint \<times> charp \<times> charp"
  | Set XPA charp charp charp charp cint XPA "cint \<times> charp"
  | SetFd XPA charp charp charp cint XPA "cint \<times> charp"

fun outcome :: "(error + 'a) \<times> world \<Rightarrow> world option" where
  "outcome (Inl Undefined, w) = None"
| "outcome (r, w) = Some w"

fun step :: "op \<Rightarrow> world \<Rightarrow> world option" where
  "step (Acquire opened) w = outcome (acquire opened w)"
| "step (Reset opened) w = outcome (reset opened w)"
| "step (Get xpa xtemplate paramlist mode opened answer) w =
     outcome (XPAGet1 xpa xtemplate paramlist mode opened answer w)"
| "step (Set xpa xtemplate paramlist mode buf len opened answer) w =
     outcome (XPASet1 xpa xtemplate paramlist mode buf len opened answer w)"
| "step (SetFd xpa xtemplate paramlist mode fd opened answer) w =
     outcome (XPASetFd1 xpa xtemplate paramlist mode fd opened answer w)"

fun run :: "op list \<Rightarrow> world \<Rightarrow> world option" where
  "run [] w = Some w"
| "run (x # xs) w = (case step x w of None \<Rightarrow> None | Some w1 \<Rightarrow> run xs w1)"

text \<open>Consecutive calls of \<open>acquire()\<close>, with the results they return.\<close>

fun acquires :: "XPA list \<Rightarrow> world \<Rightarrow> (error + XPA) list \<times> world" where
  "acquires [] w = ([], w)"
| "acquires (opened # rest) w =
     (case acquire opened w of (r, w1) \<Rightarrow>
        (case acquires rest w1 of (rs, w2) \<Rightarrow> (r # rs, w2)))"

subsection \<open>Reading the record of transport calls\<close>

text \<open>
  The sessions open after a call, given those open before it: a successful \<^verbatim>\<open>XPAOpen\<close>
  adds the session it returned, \<^verbatim>\<open>XPAClose\<close> removes the session it is given.
\<close>

fun track :: "nat list \<Rightarrow> call \<Rightarrow> nat list" where
  "track live (Call_XPAOpen mode (Some h)) = h # live"
| "track live (Call_XPAClose (Some h)) = remove1 h live"
| "track live c = live"

definition open_sessions :: "call list \<Rightarrow> nat list" where
  "open_sessions cs = foldl track [] cs"

text \<open>Every \<^verbatim>\<open>XPAClose\<close> of a history is given a session that is open at that moment.\<close>

fun permitted :: "nat list \<Rightarrow> call \<Rightarrow> bool" where
  "permitted live (Call_XPAClose x) = (case x of None \<Rightarrow> False | Some h \<Rightarrow> h \<in> set live)"
| "permitted live c = True"

fun closes_open :: "nat list \<Rightarrow> call list \<Rightarrow> bool" where
  "closes_open live [] = True"
| "closes_open live (c # cs) = (permitted live c \<and> closes_open (track live c) cs)"

fun is_close :: "call \<Rightarrow> bool" where
  "is_close (Call_XPAClose x) = True"
| "is_close c = False"

fun is_opened :: "call \<Rightarrow> bool" where
  "is_opened (Call_XPAOpen mode (Some h)) = True"
| "is_opened c = False"

text \<open>A call of \<^verbatim>\<open>XPAOpen\<close>, whatever it returned; an operation that is \<open>reset()\<close>.\<close>

fun is_XPAOpen :: "call \<Rightarrow> bool" where
  "is_XPAOpen (Call_XPAOpen mode h) = True"
| "is_XPAOpen c = False"

fun is_Reset :: "op \<Rightarrow> bool" where
  "is_Reset (Reset opened) = True"
| "is_Reset x = False"

text \<open>At every moment of a history at most one session was open.\<close>

definition never_two :: "call list \<Rightarrow> bool" where
  "never_two cs = (\<forall>k. length (open_sessions (take k cs)) \<le> 1)"

text \<open>
  What holds of the connector between operations: the record of transport calls is
  well formed, at every moment of it at most one session was open, and the session open
  now is the stored handle where \<^verbatim>\<open>singleton\<close> is set, and none otherwise.
\<close>

definition consistent :: "world \<Rightarrow> bool" where
  "consistent w =
     (closes_open [] (calls w)
      \<and> never_two (calls w)
      \<and> open_sessions (calls w)
          = (if singleton w then (case myXPA_xpa w of None \<Rightarrow> [] | Some h \<Rightarrow> [h]) else [])
      \<and> (singleton w \<longrightarrow> myXPA_xpa w \<noteq> None)
      \<and> length (filter is_opened (calls w))
          = length (filter is_close (calls w)) + length (open_sessions (calls w)))"

text \<open>
  What a wrapper call leaves alone, from the state \<open>w\<close> before it to the state \<open>w'\<close>
  after it: no \<^verbatim>\<open>XPAClose\<close> is added to the history; a handle stored before is stored after,
  the same; with an explicit handle the stored one is untouched; and the stored handle is
  as handle resolution left it.
\<close>

definition handle_kept :: "XPA \<Rightarrow> XPA \<Rightarrow> world \<Rightarrow> world \<Rightarrow> bool" where
  "handle_kept xpa opened w w' =
     (filter is_close (calls w') = filter is_close (calls w)
      \<and> (singleton w \<longrightarrow> singleton w' \<and> myXPA_xpa w' = myXPA_xpa w)
      \<and> (xpa \<noteq> None \<longrightarrow> singleton w' = singleton w \<and> myXPA_xpa w' = myXPA_xpa w)
      \<and> singleton w' = singleton (snd (resolve xpa opened w))
      \<and> myXPA_xpa w' = myXPA_xpa (snd (resolve xpa opened w)))"

section \<open>Properties\<close>

subsection \<open>Handle resolution\<close>

lemma myXPA_get_False:
  "myXPA_get False opened w =
     (if singleton w then (Inr (myXPA_xpa w), w)
      else if opened = None
        then (Inl (IoError ''Unable to open XPA''),
              w\<lparr>myXPA_xpa := None, calls := calls w @ [Call_XPAOpen (literal ''w'') None]\<rparr>)
      else (Inr opened,
            w\<lparr>singleton := True, myXPA_xpa := opened,
              calls := calls w @ [Call_XPAOpen (literal ''w'') opened]\<rparr>))"
  by (simp add: myXPA_get_def myXPA_ctor_def record_call_def Let_def)

lemma resolve_cases:
  "resolve xpa opened w =
     (if xpa \<noteq> None then (Inr xpa, w)
      else if singleton w then (Inr (myXPA_xpa w), w)
      else if opened = None
        then (Inl (IoError ''Unable to open XPA''),
              w\<lparr>myXPA_xpa := None, calls := calls w @ [Call_XPAOpen (literal ''w'') None]\<rparr>)
      else (Inr opened,
            w\<lparr>singleton := True, myXPA_xpa := opened,
              calls := calls w @ [Call_XPAOpen (literal ''w'') opened]\<rparr>))"
  by (simp add: resolve_def myXPA_get_False)

lemma resolve_ok:
  "resolves xpa opened w \<Longrightarrow> \<exists>h w1. resolve xpa opened w = (Inr h, w1)"
  by (auto simp: resolves_def resolve_cases)

subsection \<open>Outcomes of the request wrappers\<close>

text \<open>
  C1. Once the handle is resolved (an explicit handle, a stored one, or a successful open),
  \<^verbatim>\<open>XPAGet1\<close> classifies the transport's answer in this order: a match count of zero
  throws (the specification's TransportError is the code's \<^verbatim>\<open>IoError\<close>); otherwise a
  non-null error string is returned as the result, the very pointer the transport gave;
  otherwise a null payload throws; otherwise the payload pointer is returned unchanged.
\<close>

theorem XPAGet1_outcomes:
  assumes "resolves xpa opened w"
  shows "(n = 0 \<longrightarrow>
            fst (XPAGet1 xpa xtemplate paramlist mode opened (n, buf, err) w)
              = Inl (IoError ''XPAGet returned 0''))
       \<and> (n \<noteq> 0 \<and> err \<noteq> None \<longrightarrow>
            fst (XPAGet1 xpa xtemplate paramlist mode opened (n, buf, err) w) = Inr err)
       \<and> (n \<noteq> 0 \<and> err = None \<and> buf = None \<longrightarrow>
            fst (XPAGet1 xpa xtemplate paramlist mode opened (n, buf, err) w)
              = Inl (IoError ''XPAGet returned a null buffer pointer''))
       \<and> (n \<noteq> 0 \<and> err = None \<and> buf \<noteq> None \<longrightarrow>
            fst (XPAGet1 xpa xtemplate paramlist mode opened (n, buf, err) w) = Inr buf)"
proof -
  from resolve_ok [OF assms] obtain h w1 where "resolve xpa opened w = (Inr h, w1)"
    by blast
  then show ?thesis
    by (simp add: XPAGet1_def Let_def)
qed

theorem XPAGet1_outcomes_witness:
  "resolves None (Some 7) initial
   \<and> fst (XPAGet1 None (literal ''ds9'') (literal ''frame 1'') (literal []) (Some 7)
          (0, None, None) initial) = Inl (IoError ''XPAGet returned 0'')
   \<and> fst (XPAGet1 None (literal ''ds9'') (literal ''frame 1'') (literal []) (Some 7)
          (1, None, literal ''XPA$ERROR unknown'') initial) = Inr (literal ''XPA$ERROR unknown'')
   \<and> fst (XPAGet1 None (literal ''ds9'') (literal ''frame 1'') (literal []) (Some 7)
          (1, None, None) initial) = Inl (IoError ''XPAGet returned a null buffer pointer'')
   \<and> fst (XPAGet1 None (literal ''ds9'') (literal ''frame 1'') (literal []) (Some 7)
          (1, literal ''1'', None) initial) = Inr (literal ''1'')"
proof -
  have r: "resolves None (Some 7) initial"
    by (simp add: resolves_def)
  show ?thesis
    using r
      XPAGet1_outcomes [OF r, of 0 "literal ''ds9''" "literal ''frame 1''" "literal []" None None]
      XPAGet1_outcomes [OF r, of 1 "literal ''ds9''" "literal ''frame 1''" "literal []" None
        "literal ''XPA$ERROR unknown''"]
      XPAGet1_outcomes [OF r, of 1 "literal ''ds9''" "literal ''frame 1''" "literal []" None None]
      XPAGet1_outcomes [OF r, of 1 "literal ''ds9''" "literal ''frame 1''" "literal []"
        "literal ''1''" None]
    by (simp add: literal_def)
qed

lemma XPASet1_defined:
  assumes "0 \<le> sint len \<or> strlen buf \<noteq> None"
  shows "XPASet1 xpa xtemplate paramlist mode buf len opened (n, err) w =
     (case resolve xpa opened w of
        (Inl e, w1) \<Rightarrow> (Inl e, w1)
      | (Inr h, w1) \<Rightarrow>
          (if n = 0 then Inl (IoError ''XPASet returned 0'')
           else if err \<noteq> None then Inr err else Inr (literal []),
           w1\<lparr>calls := calls w1 @
              [Call_XPASet h xtemplate paramlist mode buf
                 (if sint len < 0 then word_of_nat (the (strlen buf)) else len)]\<rparr>))"
  using assms
  by (auto simp: XPASet1_def record_call_def Let_def split: prod.splits sum.splits)

lemma XPASetFd1_cases:
  "XPASetFd1 xpa xtemplate paramlist mode fd opened (n, err) w =
     (case resolve xpa opened w of
        (Inl e, w1) \<Rightarrow> (Inl e, w1)
      | (Inr h, w1) \<Rightarrow>
          (if n = 0 then Inl (IoError ''XPASetFd returned 0'')
           else if err \<noteq> None then Inr err else Inr (literal []),
           w1\<lparr>calls := calls w1 @ [Call_XPASetFd h xtemplate paramlist mode fd]\<rparr>))"
  by (auto simp: XPASetFd1_def record_call_def Let_def split: prod.splits sum.splits)

lemma XPAGet1_cases:
  "XPAGet1 xpa xtemplate paramlist mode opened (n, buf, err) w =
     (case resolve xpa opened w of
        (Inl e, w1) \<Rightarrow> (Inl e, w1)
      | (Inr h, w1) \<Rightarrow>
          (if n = 0 then Inl (IoError ''XPAGet returned 0'')
           else if err \<noteq> None then Inr err
           else if buf = None then Inl (IoError ''XPAGet returned a null buffer pointer'')
           else Inr buf,
           w1\<lparr>calls := calls w1 @ [Call_XPAGet h xtemplate paramlist mode]\<rparr>))"
  by (auto simp: XPAGet1_def record_call_def Let_def split: prod.splits sum.splits)

text \<open>
  C2. Once the handle is resolved, and the length computation is defined (an explicit
  non-negative length, or a payload \<^verbatim>\<open>strlen\<close> can measure), \<^verbatim>\<open>XPASet1\<close> and \<^verbatim>\<open>XPASetFd1\<close>
  return the literal \<^verbatim>\<open>""\<close> (an empty C string) on a nonzero match count with no error
  string, throw \<^verbatim>\<open>IoError\<close> on a match count of zero, and otherwise return the transport's
  error string, the very pointer.
\<close>

theorem XPASet1_XPASetFd1_outcomes:
  assumes "resolves xpa opened w" and "0 \<le> sint len \<or> strlen buf \<noteq> None"
  shows "(n \<noteq> 0 \<and> err = None \<longrightarrow>
            fst (XPASet1 xpa xtemplate paramlist mode buf len opened (n, err) w)
              = Inr (literal [])
          \<and> fst (XPASetFd1 xpa xtemplate paramlist mode fd opened (n, err) w)
              = Inr (literal []))
       \<and> c_str (literal []) = Some []
       \<and> (n = 0 \<longrightarrow>
            fst (XPASet1 xpa xtemplate paramlist mode buf len opened (n, err) w)
              = Inl (IoError ''XPASet returned 0'')
          \<and> fst (XPASetFd1 xpa xtemplate paramlist mode fd opened (n, err) w)
              = Inl (IoError ''XPASetFd returned 0''))
       \<and> (n \<noteq> 0 \<and> err \<noteq> None \<longrightarrow>
            fst (XPASet1 xpa xtemplate paramlist mode buf len opened (n, err) w) = Inr err
          \<and> fst (XPASetFd1 xpa xtemplate paramlist mode fd opened (n, err) w) = Inr err)"
proof -
  from resolve_ok [OF assms(1)] obtain h w1 where "resolve xpa opened w = (Inr h, w1)"
    by blast
  then show ?thesis
    by (simp add: XPASet1_defined [OF assms(2)] XPASetFd1_cases literal_def)
qed

theorem XPASet1_XPASetFd1_outcomes_witness:
  "resolves None (Some 7) initial \<and> 0 \<le> sint (3 :: cint)
   \<and> fst (XPASet1 None (literal ''ds9'') (literal ''fits'') (literal []) (literal ''abc'') 3
          (Some 7) (1, None) initial) = Inr (literal [])
   \<and> fst (XPASetFd1 None (literal ''ds9'') (literal ''fits'') (literal []) 5
          (Some 7) (1, None) initial) = Inr (literal [])
   \<and> fst (XPASet1 None (literal ''ds9'') (literal ''fits'') (literal []) (literal ''abc'') 3
          (Some 7) (0, None) initial) = Inl (IoError ''XPASet returned 0'')
   \<and> fst (XPASetFd1 None (literal ''ds9'') (literal ''fits'') (literal []) 5
          (Some 7) (0, None) initial) = Inl (IoError ''XPASetFd returned 0'')
   \<and> fst (XPASet1 None (literal ''ds9'') (literal ''fits'') (literal []) (literal ''abc'') 3
          (Some 7) (1, literal ''XPA$ERROR no data'') initial)
        = Inr (literal ''XPA$ERROR no data'')
   \<and> fst (XPASetFd1 None (literal ''ds9'') (literal ''fits'') (literal []) 5
          (Some 7) (1, literal ''XPA$ERROR no data'') initial)
        = Inr (literal ''XPA$ERROR no data'')"
proof -
  have r: "resolves None (Some 7) initial"
    by (simp add: resolves_def)
  have l: "0 \<le> sint (3 :: cint) \<or> strlen (literal ''abc'') \<noteq> None"
    by simp
  show ?thesis
    using r
      XPASet1_XPASetFd1_outcomes [OF r l, of 1 None "literal ''ds9''" "literal ''fits''"
        "literal []" 5]
      XPASet1_XPASetFd1_outcomes [OF r l, of 0 None "literal ''ds9''" "literal ''fits''"
        "literal []" 5]
      XPASet1_XPASetFd1_outcomes [OF r l, of 1 "literal ''XPA$ERROR no data''"
        "literal ''ds9''" "literal ''fits''" "literal []" 5]
    by (simp add: literal_def)
qed

subsection \<open>The length \<^verbatim>\<open>XPASet1\<close> passes on\<close>

lemma takeWhile_replicate_NUL:
  "c \<noteq> NUL \<Longrightarrow> takeWhile (\<lambda>c. c \<noteq> NUL) (replicate k c @ NUL # rest) = replicate k c"
  by (induction k) simp_all

lemma strlen_replicate:
  "c \<noteq> NUL \<Longrightarrow> strlen (Some (replicate k c @ NUL # rest)) = Some k"
  by (simp add: takeWhile_replicate_NUL)

lemma first_NUL:
  "x \<in> set xs \<Longrightarrow> length (takeWhile (\<lambda>c. c \<noteq> x) xs) < length xs
     \<and> xs ! length (takeWhile (\<lambda>c. c \<noteq> x) xs) = x
     \<and> (\<forall>i < length (takeWhile (\<lambda>c. c \<noteq> x) xs). xs ! i \<noteq> x)"
  by (induction xs) (auto simp: nth_Cons split: nat.splits)

lemma strlen_Some:
  "strlen buf = Some k \<Longrightarrow>
     \<exists>bs. buf = Some bs \<and> k < length bs \<and> bs ! k = NUL \<and> (\<forall>i<k. bs ! i \<noteq> NUL)"
  using first_NUL [of NUL]
  by (cases buf) (auto split: if_splits)

lemma sint_of_nat_small: "k < 2 ^ 31 \<Longrightarrow> sint (word_of_nat k :: cint) = int k"
  by (simp add: signed_of_nat signed_take_bit_int_eq_self)

text \<open>
  C5 as stated fails twice. A caller that supplies the explicit length \<open>-2\<close> with the
  payload \<^verbatim>\<open>"abc"\<close> has 3 passed to the transport, not \<open>-2\<close>. A caller that leaves the
  length out with a payload of \<open>2^31\<close> bytes before its NUL has \<open>-2^31\<close> passed, not
  the payload's length.
\<close>

theorem set_length_counterexample:
  "calls (snd (set_binding (Some 1) (literal ''ds9'') (literal ''fits'') (literal [])
        (literal ''abc'') (Some (- 2)) None (1, None) initial))
     = [Call_XPASet (Some 1) (literal ''ds9'') (literal ''fits'') (literal [])
          (literal ''abc'') 3]
   \<and> strlen (Some (replicate 2147483648 (CHR ''a'') @ [NUL])) = Some 2147483648
   \<and> (\<exists>l. calls (snd (set_binding (Some 1) (literal ''ds9'') (literal ''fits'') (literal [])
        (Some (replicate 2147483648 (CHR ''a'') @ [NUL])) None None (1, None) initial))
     = [Call_XPASet (Some 1) (literal ''ds9'') (literal ''fits'') (literal [])
          (Some (replicate 2147483648 (CHR ''a'') @ [NUL])) l]
       \<and> sint l = - 2147483648)"
proof -
  have a: "strlen (literal ''abc'') = Some 3"
    by (simp add: literal_def NUL_def)
  have b: "strlen (Some (replicate 2147483648 (CHR ''a'') @ [NUL])) = Some 2147483648"
    by (rule strlen_replicate) (simp add: NUL_def)
  have c: "sint (word_of_nat 2147483648 :: cint) = - 2147483648"
    by simp
  have d: "0 \<le> sint (- 1 :: cint)
      \<or> strlen (Some (replicate 2147483648 (CHR ''a'') @ [NUL])) \<noteq> None"
    by (simp add: b)
  have "calls (snd (set_binding (Some 1) (literal ''ds9'') (literal ''fits'') (literal [])
        (literal ''abc'') (Some (- 2)) None (1, None) initial))
     = [Call_XPASet (Some 1) (literal ''ds9'') (literal ''fits'') (literal [])
          (literal ''abc'') 3]"
    by (simp add: set_binding_def XPASet1_defined a resolve_def initial_def)
  moreover have "calls (snd (set_binding (Some 1) (literal ''ds9'') (literal ''fits'') (literal [])
        (Some (replicate 2147483648 (CHR ''a'') @ [NUL])) None None (1, None) initial))
     = [Call_XPASet (Some 1) (literal ''ds9'') (literal ''fits'') (literal [])
          (Some (replicate 2147483648 (CHR ''a'') @ [NUL])) (word_of_nat 2147483648)]"
    by (simp only: set_binding_def option.case XPASet1_defined [OF d] b)
       (simp add: resolve_def initial_def)
  ultimately show ?thesis
    using b c by blast
qed

text \<open>
  C5, amended. With the handle resolved: when the length is left out and the payload holds
  a NUL after fewer than \<open>2^31\<close> bytes, the length passed to \<^verbatim>\<open>XPASet\<close> is that number
  of bytes; when a length that is not negative is supplied, exactly that length is passed,
  whatever the payload holds.
\<close>

theorem set_length_passed:
  assumes "resolve xpa opened w = (Inr h, w1)"
  shows "(strlen buf = Some k \<and> k < 2 ^ 31 \<longrightarrow>
            calls (snd (set_binding xpa xtemplate paramlist mode buf None opened (n, err) w))
              = calls w1 @ [Call_XPASet h xtemplate paramlist mode buf (word_of_nat k)]
            \<and> sint (word_of_nat k :: cint) = int k)
       \<and> (0 \<le> sint l \<longrightarrow>
            calls (snd (set_binding xpa xtemplate paramlist mode buf (Some l) opened (n, err) w))
              = calls w1 @ [Call_XPASet h xtemplate paramlist mode buf l])"
  using assms
  by (simp add: set_binding_def XPASet1_defined sint_of_nat_small)

theorem set_length_passed_witness:
  "resolve None (Some 7) initial
     = (Inr (Some 7), \<lparr>singleton = True, myXPA_xpa = Some 7,
          calls = [Call_XPAOpen (literal ''w'') (Some 7)]\<rparr>)
   \<and> strlen (literal ''abc'') = Some 3 \<and> (3 :: nat) < 2 ^ 31
   \<and> calls (snd (set_binding None (literal ''ds9'') (literal ''fits'') (literal [])
        (literal ''abc'') None (Some 7) (1, None) initial))
     = [Call_XPAOpen (literal ''w'') (Some 7),
        Call_XPASet (Some 7) (literal ''ds9'') (literal ''fits'') (literal [])
          (literal ''abc'') 3]
   \<and> 0 \<le> sint (1 :: cint)
   \<and> calls (snd (set_binding None (literal ''ds9'') (literal ''fits'') (literal [])
        (literal ''abc'') (Some 1) (Some 7) (1, None) initial))
     = [Call_XPAOpen (literal ''w'') (Some 7),
        Call_XPASet (Some 7) (literal ''ds9'') (literal ''fits'') (literal [])
          (literal ''abc'') 1]"
proof -
  have r: "resolve None (Some 7) initial
     = (Inr (Some 7), \<lparr>singleton = True, myXPA_xpa = Some 7,
          calls = [Call_XPAOpen (literal ''w'') (Some 7)]\<rparr>)"
    by (simp add: resolve_cases initial_def)
  have a: "strlen (literal ''abc'') = Some 3"
    by (simp add: literal_def NUL_def)
  show ?thesis
    using r a
      set_length_passed [OF r, of "literal ''abc''" 3 "literal ''ds9''" "literal ''fits''"
        "literal []" 1 None 1]
    by simp
qed

text \<open>
  C10. Every negative length, not only \<open>-1\<close>, sends \<^verbatim>\<open>XPASet1\<close> through \<^verbatim>\<open>strlen(buf)\<close>:
  the call behaves exactly as with \<open>-1\<close>. It is then defined if and only if \<open>buf\<close> is
  a non-null pointer to an array that holds a NUL; for such a payload \<^verbatim>\<open>strlen\<close> returns
  the index of the first NUL, inside the array, and that value (converted to \<^verbatim>\<open>int\<close>)
  is the length passed to the transport.
\<close>

theorem XPASet1_negative_len:
  assumes "sint len < 0"
  shows "XPASet1 xpa xtemplate paramlist mode buf len opened (n, err) w
           = XPASet1 xpa xtemplate paramlist mode buf (- 1) opened (n, err) w
       \<and> (fst (XPASet1 xpa xtemplate paramlist mode buf len opened (n, err) w) = Inl Undefined)
           = (\<not> (\<exists>bs. buf = Some bs \<and> NUL \<in> set bs))
       \<and> ((\<exists>bs. buf = Some bs \<and> NUL \<in> set bs) \<longrightarrow>
            (\<exists>bs k. buf = Some bs \<and> strlen buf = Some k \<and> k < length bs \<and> bs ! k = NUL
               \<and> (\<forall>i<k. bs ! i \<noteq> NUL)
               \<and> (\<forall>h w1. resolve xpa opened w = (Inr h, w1) \<longrightarrow>
                    calls (snd (XPASet1 xpa xtemplate paramlist mode buf len opened (n, err) w))
                      = calls w1
                        @ [Call_XPASet h xtemplate paramlist mode buf (word_of_nat k)])))"
proof (cases "\<exists>bs. buf = Some bs \<and> NUL \<in> set bs")
  case False
  then have "strlen buf = None"
    by (cases buf) auto
  with assms False show ?thesis
    by (simp add: XPASet1_def)
next
  case True
  then obtain bs where bs: "buf = Some bs" "NUL \<in> set bs"
    by blast
  then obtain k where k: "strlen buf = Some k"
    by simp
  from strlen_Some [OF k] bs
  have pos: "k < length bs \<and> bs ! k = NUL \<and> (\<forall>i<k. bs ! i \<noteq> NUL)"
    by simp
  have d: "0 \<le> sint len' \<or> strlen buf \<noteq> None" for len' :: cint
    by (simp add: k)
  have "fst (XPASet1 xpa xtemplate paramlist mode buf len opened (n, err) w) \<noteq> Inl Undefined"
    by (auto simp: XPASet1_defined [OF d] resolve_cases)
  moreover have "XPASet1 xpa xtemplate paramlist mode buf len opened (n, err) w
           = XPASet1 xpa xtemplate paramlist mode buf (- 1) opened (n, err) w"
    using assms by (simp add: XPASet1_defined [OF d])
  moreover have "\<forall>h w1. resolve xpa opened w = (Inr h, w1) \<longrightarrow>
      calls (snd (XPASet1 xpa xtemplate paramlist mode buf len opened (n, err) w))
        = calls w1 @ [Call_XPASet h xtemplate paramlist mode buf (word_of_nat k)]"
    using assms by (simp add: XPASet1_defined [OF d] k)
  ultimately show ?thesis
    using True bs k pos by auto
qed

theorem XPASet1_negative_len_witness:
  "sint (- 5 :: cint) < 0
   \<and> XPASet1 (Some 1) (literal ''ds9'') (literal ''fits'') (literal []) (literal ''abc'') (- 5)
        None (1, None) initial
     = (Inr (literal []),
        \<lparr>singleton = False, myXPA_xpa = None,
           calls = [Call_XPASet (Some 1) (literal ''ds9'') (literal ''fits'') (literal [])
                      (literal ''abc'') 3]\<rparr>)
   \<and> XPASet1 (Some 1) (literal ''ds9'') (literal ''fits'') (literal []) (literal ''abc'') (- 1)
        None (1, None) initial
     = (Inr (literal []),
        \<lparr>singleton = False, myXPA_xpa = None,
           calls = [Call_XPASet (Some 1) (literal ''ds9'') (literal ''fits'') (literal [])
                      (literal ''abc'') 3]\<rparr>)
   \<and> fst (XPASet1 (Some 1) (literal ''ds9'') (literal ''fits'') (literal []) None (- 5)
        None (1, None) initial) = Inl Undefined
   \<and> fst (XPASet1 (Some 1) (literal ''ds9'') (literal ''fits'') (literal []) (Some ''abc'') (- 5)
        None (1, None) initial) = Inl Undefined"
proof -
  have neg: "sint (- 5 :: cint) < 0"
    by simp
  have a: "XPASet1 (Some 1) (literal ''ds9'') (literal ''fits'') (literal []) (literal ''abc'') (- 1)
        None (1, None) initial
     = (Inr (literal []),
        \<lparr>singleton = False, myXPA_xpa = None,
           calls = [Call_XPASet (Some 1) (literal ''ds9'') (literal ''fits'') (literal [])
                      (literal ''abc'') 3]\<rparr>)"
    by (simp add: XPASet1_def resolve_def record_call_def initial_def literal_def NUL_def)
  have t1: "XPASet1 (Some 1) (literal ''ds9'') (literal ''fits'') (literal []) (literal ''abc'')
        (- 5) None (1, None) initial
      = XPASet1 (Some 1) (literal ''ds9'') (literal ''fits'') (literal []) (literal ''abc'')
        (- 1) None (1, None) initial"
    using XPASet1_negative_len [OF neg, of "Some 1" "literal ''ds9''" "literal ''fits''"
        "literal []" "literal ''abc''" None 1 None initial, THEN conjunct1] .
  have t2: "fst (XPASet1 (Some 1) (literal ''ds9'') (literal ''fits'') (literal []) None (- 5)
        None (1, None) initial) = Inl Undefined"
    using XPASet1_negative_len [OF neg, of "Some 1" "literal ''ds9''" "literal ''fits''"
        "literal []" None None 1 None initial, THEN conjunct2, THEN conjunct1]
    by simp
  have t3: "fst (XPASet1 (Some 1) (literal ''ds9'') (literal ''fits'') (literal []) (Some ''abc'')
        (- 5) None (1, None) initial) = Inl Undefined"
    using XPASet1_negative_len [OF neg, of "Some 1" "literal ''ds9''" "literal ''fits''"
        "literal []" "Some ''abc''" None 1 None initial, THEN conjunct2, THEN conjunct1]
    by (simp add: NUL_def)
  show ?thesis
    using neg a t1 t2 t3 by simp
qed

subsection \<open>The connection manager\<close>

lemma myXPA_get_True:
  "myXPA_get True opened w =
     (if opened = None
        then (Inl (IoError ''Unable to open XPA''),
              w\<lparr>singleton := False, myXPA_xpa := None,
                calls := calls w @ (if singleton w then [Call_XPAClose (myXPA_xpa w)] else [])
                           @ [Call_XPAOpen (literal ''w'') None]\<rparr>)
      else (Inr opened,
            w\<lparr>singleton := True, myXPA_xpa := opened,
              calls := calls w @ (if singleton w then [Call_XPAClose (myXPA_xpa w)] else [])
                         @ [Call_XPAOpen (literal ''w'') opened]\<rparr>))"
  by (simp add: myXPA_get_def myXPA_ctor_def myXPA_dtor_def record_call_def Let_def)

text \<open>
  C3 as stated fails: \<open>reset()\<close> with no handle stored is not a no-op. It opens a
  connection and stores it, and where the transport cannot open one it throws.
\<close>

theorem reset_counterexample:
  "reset (Some 1) initial
     = (Inr (), \<lparr>singleton = True, myXPA_xpa = Some 1,
                  calls = [Call_XPAOpen (literal ''w'') (Some 1)]\<rparr>)
   \<and> fst (reset None initial) = Inl (IoError ''Unable to open XPA'')"
  by (simp add: reset_def myXPA_get_True initial_def)

text \<open>
  C3, amended. \<open>reset()\<close> calls \<^verbatim>\<open>XPAClose\<close> only when a handle is stored, on that handle,
  and then always calls \<^verbatim>\<open>XPAOpen\<close> once itself, in mode \<^verbatim>\<open>"w"\<close>: the handle opened is
  stored, and where the open fails \<open>reset()\<close> throws \<^verbatim>\<open>IoError\<close> and leaves no handle
  stored.
\<close>

theorem reset_closes_then_opens:
  "calls (snd (reset opened w))
     = calls w @ (if singleton w then [Call_XPAClose (myXPA_xpa w)] else [])
         @ [Call_XPAOpen (literal ''w'') opened]
   \<and> myXPA_xpa (snd (reset opened w)) = opened
   \<and> singleton (snd (reset opened w)) = (opened \<noteq> None)
   \<and> fst (reset opened w)
       = (if opened = None then Inl (IoError ''Unable to open XPA'') else Inr ())"
  by (simp add: reset_def myXPA_get_True)

theorem reset_closes_then_opens_witness:
  "calls (snd (reset (Some 2)
       \<lparr>singleton = True, myXPA_xpa = Some 1,
          calls = [Call_XPAOpen (literal ''w'') (Some 1)]\<rparr>))
     = [Call_XPAOpen (literal ''w'') (Some 1), Call_XPAClose (Some 1),
        Call_XPAOpen (literal ''w'') (Some 2)]
   \<and> calls (snd (reset (Some 2) initial)) = [Call_XPAOpen (literal ''w'') (Some 2)]"
  using reset_closes_then_opens [of "Some 2" "\<lparr>singleton = True, myXPA_xpa = Some 1,
          calls = [Call_XPAOpen (literal ''w'') (Some 1)]\<rparr>"]
    reset_closes_then_opens [of "Some 2" initial]
  by (simp add: initial_def)

text \<open>
  C4 as stated fails where the first open fails: the first \<open>acquire()\<close> throws, the
  second calls \<^verbatim>\<open>XPAOpen\<close> again and returns a handle, so the calls do not all return the
  same thing and \<^verbatim>\<open>XPAOpen\<close> is invoked twice.
\<close>

theorem acquire_counterexample:
  "acquires [None, Some 3] initial
     = ([Inl (IoError ''Unable to open XPA''), Inr (Some 3)],
        \<lparr>singleton = True, myXPA_xpa = Some 3,
           calls = [Call_XPAOpen (literal ''w'') None,
                    Call_XPAOpen (literal ''w'') (Some 3)]\<rparr>)
   \<and> length (filter is_XPAOpen (calls (snd (acquires [None, Some 3] initial)))) = 2"
  by (simp add: acquire_def myXPA_get_False initial_def)

lemma stored_step:
  assumes "singleton w" and "\<not> is_Reset x" and "step x w = Some w'"
  shows "singleton w' \<and> myXPA_xpa w' = myXPA_xpa w
       \<and> filter is_XPAOpen (calls w') = filter is_XPAOpen (calls w)"
proof (cases x)
  case (Acquire opened)
  with assms show ?thesis
    by (auto simp: acquire_def myXPA_get_False)
next
  case (Reset opened)
  with assms(2) show ?thesis
    by simp
next
  case (Get xpa xtemplate paramlist mode opened answer)
  obtain n buf err where "answer = (n, buf, err)"
    by (cases answer)
  with assms Get show ?thesis
    by (auto simp: XPAGet1_cases resolve_cases split: if_splits)
next
  case (Set xpa xtemplate paramlist mode buf len opened answer)
  obtain n err where answer: "answer = (n, err)"
    by (cases answer)
  have d: "0 \<le> sint len \<or> strlen buf \<noteq> None"
  proof (rule ccontr)
    assume "\<not> (0 \<le> sint len \<or> strlen buf \<noteq> None)"
    then have "XPASet1 xpa xtemplate paramlist mode buf len opened answer w = (Inl Undefined, w)"
      by (simp add: XPASet1_def)
    with assms(3) Set show False
      by simp
  qed
  from assms Set answer show ?thesis
    by (auto simp: XPASet1_defined [OF d] resolve_cases split: if_splits)
next
  case (SetFd xpa xtemplate paramlist mode fd opened answer)
  obtain n err where "answer = (n, err)"
    by (cases answer)
  with assms SetFd show ?thesis
    by (auto simp: XPASetFd1_cases resolve_cases split: if_splits)
qed

lemma stored_run:
  "singleton w \<Longrightarrow> \<forall>x \<in> set ops. \<not> is_Reset x \<Longrightarrow> run ops w = Some w' \<Longrightarrow>
     singleton w' \<and> myXPA_xpa w' = myXPA_xpa w
     \<and> filter is_XPAOpen (calls w') = filter is_XPAOpen (calls w)"
proof (induction ops arbitrary: w)
  case Nil
  then show ?case
    by simp
next
  case (Cons x ops)
  from Cons.prems(3) obtain w1 where s: "step x w = Some w1" and r: "run ops w1 = Some w'"
    by (auto split: option.splits)
  from Cons.prems(2) have nx: "\<not> is_Reset x" and nops: "\<forall>y \<in> set ops. \<not> is_Reset y"
    by simp_all
  from stored_step [OF Cons.prems(1) nx s]
  have w1: "singleton w1" "myXPA_xpa w1 = myXPA_xpa w"
    "filter is_XPAOpen (calls w1) = filter is_XPAOpen (calls w)"
    by simp_all
  from Cons.IH [OF w1(1) nops r] w1 show ?case
    by simp
qed

text \<open>
  C4, amended. \<open>acquire()\<close> is idempotent once it has returned a handle: whatever
  operations other than \<open>reset()\<close> follow (further \<open>acquire()\<close> calls, \<open>get\<close>, \<open>set\<close>,
  \<open>setFd\<close>, with any answers of the transport), a later \<open>acquire()\<close> returns the same
  handle, changes nothing, and \<^verbatim>\<open>XPAOpen\<close> has not been invoked again in between. The
  first call itself invokes \<^verbatim>\<open>XPAOpen\<close> once where no handle was stored and not at all
  where one was.
\<close>

theorem acquire_idempotent:
  assumes "acquire opened w = (Inr h, w1)"
    and "\<forall>x \<in> set ops. \<not> is_Reset x"
    and "run ops w1 = Some w2"
  shows "acquire opened' w2 = (Inr h, w2)
       \<and> filter is_XPAOpen (calls w2) = filter is_XPAOpen (calls w1)
       \<and> calls w1 = calls w
           @ (if singleton w then [] else [Call_XPAOpen (literal ''w'') opened])"
proof -
  from assms(1) have w1: "singleton w1" "myXPA_xpa w1 = h"
    "calls w1 = calls w @ (if singleton w then [] else [Call_XPAOpen (literal ''w'') opened])"
    by (auto simp: acquire_def myXPA_get_False split: if_splits)
  from stored_run [OF w1(1) assms(2,3)] w1(2)
  have w2: "singleton w2" "myXPA_xpa w2 = h"
    "filter is_XPAOpen (calls w2) = filter is_XPAOpen (calls w1)"
    by simp_all
  from w2(1,2) have "acquire opened' w2 = (Inr h, w2)"
    by (simp add: acquire_def myXPA_get_False)
  with w2(3) w1(3) show ?thesis
    by simp
qed

theorem acquire_idempotent_witness:
  "acquire (Some 1) initial
     = (Inr (Some 1),
        \<lparr>singleton = True, myXPA_xpa = Some 1,
           calls = [Call_XPAOpen (literal ''w'') (Some 1)]\<rparr>)
   \<and> list_all (\<lambda>x. \<not> is_Reset x)
        [Acquire (Some 2),
         Get None (literal ''ds9'') (literal ''frame 1'') (literal []) (Some 4) (0, None, None),
         Acquire None]
   \<and> run [Acquire (Some 2),
           Get None (literal ''ds9'') (literal ''frame 1'') (literal []) (Some 4) (0, None, None),
           Acquire None]
        \<lparr>singleton = True, myXPA_xpa = Some 1,
           calls = [Call_XPAOpen (literal ''w'') (Some 1)]\<rparr>
     = Some \<lparr>singleton = True, myXPA_xpa = Some 1,
          calls = [Call_XPAOpen (literal ''w'') (Some 1),
                   Call_XPAGet (Some 1) (literal ''ds9'') (literal ''frame 1'') (literal [])]\<rparr>
   \<and> acquire (Some 5)
        \<lparr>singleton = True, myXPA_xpa = Some 1,
           calls = [Call_XPAOpen (literal ''w'') (Some 1),
                    Call_XPAGet (Some 1) (literal ''ds9'') (literal ''frame 1'') (literal [])]\<rparr>
     = (Inr (Some 1),
        \<lparr>singleton = True, myXPA_xpa = Some 1,
           calls = [Call_XPAOpen (literal ''w'') (Some 1),
                    Call_XPAGet (Some 1) (literal ''ds9'') (literal ''frame 1'') (literal [])]\<rparr>)"
proof -
  let ?ops = "[Acquire (Some 2),
         Get None (literal ''ds9'') (literal ''frame 1'') (literal []) (Some 4) (0, None, None),
         Acquire None]"
  let ?w1 = "\<lparr>singleton = True, myXPA_xpa = Some 1,
           calls = [Call_XPAOpen (literal ''w'') (Some 1)]\<rparr>"
  let ?w2 = "\<lparr>singleton = True, myXPA_xpa = Some 1,
          calls = [Call_XPAOpen (literal ''w'') (Some 1),
                   Call_XPAGet (Some 1) (literal ''ds9'') (literal ''frame 1'') (literal [])]\<rparr>"
  have a: "acquire (Some 1) initial = (Inr (Some 1), ?w1)"
    by (simp add: acquire_def myXPA_get_False initial_def)
  have n: "\<forall>x \<in> set ?ops. \<not> is_Reset x"
    by simp
  have r: "run ?ops ?w1 = Some ?w2"
    by (simp add: acquire_def myXPA_get_False XPAGet1_cases resolve_cases)
  have t: "acquire (Some 5) ?w2 = (Inr (Some 1), ?w2)"
    using acquire_idempotent [OF a n r, of "Some 5"] by blast
  from a n r t show ?thesis
    by (simp add: list_all_iff)
qed

text \<open>
  C6. With no handle stored, \<open>acquire()\<close> calls \<^verbatim>\<open>XPAOpen\<close> exactly once, with the mode
  \<^verbatim>\<open>"w"\<close>. Where that call returns \<^verbatim>\<open>NULL\<close>, \<open>acquire()\<close> throws \<^verbatim>\<open>IoError\<close> (the
  specification's ConnectionError), and a wrapper called without a handle throws the same
  error in the same state: the failed \<^verbatim>\<open>XPAOpen\<close> is the only transport call made, no
  second open and no request.
\<close>

theorem acquire_opens_w_or_throws:
  assumes "\<not> singleton w"
  shows "calls (snd (acquire opened w)) = calls w @ [Call_XPAOpen (literal ''w'') opened]
       \<and> (opened \<noteq> None \<longrightarrow>
            fst (acquire opened w) = Inr opened \<and> myXPA_xpa (snd (acquire opened w)) = opened
            \<and> singleton (snd (acquire opened w)))
       \<and> (opened = None \<longrightarrow>
            fst (acquire opened w) = Inl (IoError ''Unable to open XPA'')
            \<and> \<not> singleton (snd (acquire opened w))
            \<and> XPAGet1 None xtemplate paramlist mode opened (gn, gbuf, gerr) w
                = (Inl (IoError ''Unable to open XPA''), snd (acquire opened w))
            \<and> XPASetFd1 None xtemplate paramlist mode fd opened (n, err) w
                = (Inl (IoError ''Unable to open XPA''), snd (acquire opened w))
            \<and> (0 \<le> sint len \<or> strlen buf \<noteq> None \<longrightarrow>
                 XPASet1 None xtemplate paramlist mode buf len opened (n, err) w
                   = (Inl (IoError ''Unable to open XPA''), snd (acquire opened w))))"
proof -
  have r: "resolve None x w = acquire x w" for x
    by (simp add: resolve_def acquire_def)
  have a: "acquire x w =
     (if x = None
        then (Inl (IoError ''Unable to open XPA''),
              w\<lparr>myXPA_xpa := None, calls := calls w @ [Call_XPAOpen (literal ''w'') None]\<rparr>)
      else (Inr x,
            w\<lparr>singleton := True, myXPA_xpa := x,
              calls := calls w @ [Call_XPAOpen (literal ''w'') x]\<rparr>))" for x
    using assms by (simp add: acquire_def myXPA_get_False)
  have s: "0 \<le> sint len \<or> strlen buf \<noteq> None \<Longrightarrow> opened = None \<Longrightarrow>
      XPASet1 None xtemplate paramlist mode buf len opened (n, err) w
        = (Inl (IoError ''Unable to open XPA''), snd (acquire opened w))"
    by (simp add: XPASet1_defined r a)
  show ?thesis
    using assms s by (simp add: XPAGet1_cases XPASetFd1_cases r a)
qed

theorem acquire_opens_w_or_throws_witness:
  "\<not> singleton initial
   \<and> acquire None initial
       = (Inl (IoError ''Unable to open XPA''),
          \<lparr>singleton = False, myXPA_xpa = None,
             calls = [Call_XPAOpen (literal ''w'') None]\<rparr>)
   \<and> XPAGet1 None (literal ''ds9'') (literal ''frame 1'') (literal []) None
        (1, literal ''1'', None) initial
       = (Inl (IoError ''Unable to open XPA''),
          \<lparr>singleton = False, myXPA_xpa = None,
             calls = [Call_XPAOpen (literal ''w'') None]\<rparr>)
   \<and> XPASetFd1 None (literal ''ds9'') (literal ''fits'') (literal []) 5 None
        (1, None) initial
       = (Inl (IoError ''Unable to open XPA''),
          \<lparr>singleton = False, myXPA_xpa = None,
             calls = [Call_XPAOpen (literal ''w'') None]\<rparr>)
   \<and> 0 \<le> sint (3 :: cint)
   \<and> XPASet1 None (literal ''ds9'') (literal ''fits'') (literal []) (literal ''abc'') 3 None
        (1, None) initial
       = (Inl (IoError ''Unable to open XPA''),
          \<lparr>singleton = False, myXPA_xpa = None,
             calls = [Call_XPAOpen (literal ''w'') None]\<rparr>)
   \<and> acquire (Some 7) initial
       = (Inr (Some 7),
          \<lparr>singleton = True, myXPA_xpa = Some 7,
             calls = [Call_XPAOpen (literal ''w'') (Some 7)]\<rparr>)"
proof -
  have i: "\<not> singleton initial"
    by (simp add: initial_def)
  have a: "acquire None initial
       = (Inl (IoError ''Unable to open XPA''),
          \<lparr>singleton = False, myXPA_xpa = None,
             calls = [Call_XPAOpen (literal ''w'') None]\<rparr>)"
    by (simp add: acquire_def myXPA_get_False initial_def)
  have b: "acquire (Some 7) initial
       = (Inr (Some 7),
          \<lparr>singleton = True, myXPA_xpa = Some 7,
             calls = [Call_XPAOpen (literal ''w'') (Some 7)]\<rparr>)"
    by (simp add: acquire_def myXPA_get_False initial_def)
  show ?thesis
    using i a b
      acquire_opens_w_or_throws [OF i, of None "literal ''ds9''" "literal ''frame 1''"
        "literal []" 1 "literal ''1''" None 5 1 None 3 "literal ''abc''"]
      acquire_opens_w_or_throws [OF i, of None "literal ''ds9''" "literal ''fits''"
        "literal []" 1 "literal ''1''" None 5 1 None 3 "literal ''abc''"]
    by simp
qed

subsection \<open>The sessions the connector holds\<close>

lemma open_sessions_snoc:
  "open_sessions (cs @ [c]) = track (open_sessions cs) c"
  by (simp add: open_sessions_def)

lemma open_sessions_Nil: "open_sessions [] = []"
  by (simp add: open_sessions_def)

lemma closes_open_snoc:
  "closes_open live (cs @ [c]) = (closes_open live cs \<and> permitted (foldl track live cs) c)"
  by (induction cs arbitrary: live) simp_all

lemma never_two_snoc:
  "never_two (cs @ [c]) = (never_two cs \<and> length (open_sessions (cs @ [c])) \<le> 1)"
proof (intro iffI conjI)
  assume a: "never_two (cs @ [c])"
  show "length (open_sessions (cs @ [c])) \<le> 1"
    using a [unfolded never_two_def, rule_format, of "Suc (length cs)"] by simp
  show "never_two cs"
    unfolding never_two_def
  proof
    fix k
    show "length (open_sessions (take k cs)) \<le> 1"
      using a [unfolded never_two_def, rule_format, of "min k (length cs)"]
      by (simp add: min_def split: if_splits)
  qed
next
  assume b: "never_two cs \<and> length (open_sessions (cs @ [c])) \<le> 1"
  show "never_two (cs @ [c])"
    unfolding never_two_def
  proof
    fix k
    show "length (open_sessions (take k (cs @ [c]))) \<le> 1"
      using b [unfolded never_two_def] by (cases "k \<le> length cs") simp_all
  qed
qed

lemma never_two_Nil: "never_two []"
  by (simp add: never_two_def open_sessions_Nil)

lemma consistent_initial: "consistent initial"
  by (simp add: consistent_def initial_def open_sessions_Nil never_two_Nil)

lemma consistent_request:
  assumes "consistent w" and "\<not> is_close c" and "\<not> is_opened c"
    and "singleton w' = singleton w" and "myXPA_xpa w' = myXPA_xpa w"
    and "calls w' = calls w @ [c]"
  shows "consistent w'"
proof -
  have t: "track live c = live" for live
    using assms(2,3) by (cases "(live, c)" rule: track.cases) simp_all
  have cl: "permitted live c" for live
    using assms(2) by (cases c) simp_all
  show ?thesis
    using assms
    by (simp add: consistent_def closes_open_snoc cl never_two_snoc open_sessions_snoc t
          split: option.splits)
qed

lemma consistent_open:
  assumes "consistent w" and "\<not> singleton w"
    and "singleton w' = (opened \<noteq> None)" and "myXPA_xpa w' = opened"
    and "calls w' = calls w @ [Call_XPAOpen mode opened]"
  shows "consistent w'"
  using assms
  by (cases opened)
     (simp_all add: consistent_def closes_open_snoc never_two_snoc open_sessions_snoc)

lemma consistent_close:
  assumes "consistent w" and "singleton w"
    and "\<not> singleton w'"
    and "calls w' = calls w @ [Call_XPAClose (myXPA_xpa w)]"
  shows "consistent w'"
  using assms
  by (cases "myXPA_xpa w")
     (simp_all add: consistent_def closes_open_snoc never_two_snoc open_sessions_snoc
        open_sessions_def [symmetric])

lemma consistent_myXPA_get:
  assumes "consistent w"
  shows "consistent (snd (myXPA_get do_reset opened w))"
proof -
  let ?w1 = "if do_reset \<and> singleton w then (myXPA_dtor w)\<lparr>singleton := False\<rparr> else w"
  have c1: "consistent ?w1"
  proof (cases "do_reset \<and> singleton w")
    case True
    have "consistent ((myXPA_dtor w)\<lparr>singleton := False\<rparr>)"
      by (rule consistent_close [OF assms]) (simp_all add: True myXPA_dtor_def record_call_def)
    with True show ?thesis
      by simp
  next
    case False
    with assms show ?thesis
      by auto
  qed
  show ?thesis
  proof (cases "singleton ?w1")
    case True
    then have "snd (myXPA_get do_reset opened w) = ?w1"
      by (simp add: myXPA_get_def Let_def)
    with c1 show ?thesis
      by simp
  next
    case False
    have "consistent (snd (myXPA_get do_reset opened w))"
      by (rule consistent_open [OF c1 False, where opened = opened and mode = "literal ''w''"])
         (use False in \<open>auto simp: myXPA_get_def myXPA_ctor_def record_call_def Let_def\<close>)
    then show ?thesis .
  qed
qed

lemma consistent_resolve:
  "consistent w \<Longrightarrow> consistent (snd (resolve xpa opened w))"
  by (simp add: resolve_def consistent_myXPA_get)

lemma consistent_step:
  assumes "consistent w" and "step x w = Some w'"
  shows "consistent w'"
proof (cases x)
  case (Acquire opened)
  with assms(2) have "w' = snd (myXPA_get False opened w)"
    by (cases "myXPA_get False opened w" rule: outcome.cases) (auto simp: acquire_def)
  with assms(1) show ?thesis
    by (simp add: consistent_myXPA_get)
next
  case (Reset opened)
  with assms(2) have "w' = snd (myXPA_get True opened w)"
    by (auto simp: reset_def myXPA_get_True split: if_splits)
  with assms(1) show ?thesis
    by (simp add: consistent_myXPA_get)
next
  case (Get xpa xtemplate paramlist mode opened answer)
  obtain n buf err where answer: "answer = (n, buf, err)"
    by (cases answer)
  obtain r w1 where res: "resolve xpa opened w = (r, w1)"
    by (cases "resolve xpa opened w")
  from consistent_resolve [OF assms(1), of xpa opened] res have c1: "consistent w1"
    by simp
  show ?thesis
  proof (cases r)
    case (Inl e)
    with assms(2) Get answer res have "w' = w1"
      by (cases e) (simp_all add: XPAGet1_cases)
    with c1 show ?thesis
      by simp
  next
    case (Inr h)
    with assms(2) Get answer res
    have "w' = w1\<lparr>calls := calls w1 @ [Call_XPAGet h xtemplate paramlist mode]\<rparr>"
      by (auto simp: XPAGet1_cases split: if_splits)
    then show ?thesis
      using consistent_request [OF c1, of "Call_XPAGet h xtemplate paramlist mode" w']
      by simp
  qed
next
  case (Set xpa xtemplate paramlist mode buf len opened answer)
  obtain n err where answer: "answer = (n, err)"
    by (cases answer)
  have d: "0 \<le> sint len \<or> strlen buf \<noteq> None"
  proof (rule ccontr)
    assume "\<not> (0 \<le> sint len \<or> strlen buf \<noteq> None)"
    then have "XPASet1 xpa xtemplate paramlist mode buf len opened answer w = (Inl Undefined, w)"
      by (simp add: XPASet1_def)
    with assms(2) Set show False
      by simp
  qed
  obtain r w1 where res: "resolve xpa opened w = (r, w1)"
    by (cases "resolve xpa opened w")
  from consistent_resolve [OF assms(1), of xpa opened] res have c1: "consistent w1"
    by simp
  show ?thesis
  proof (cases r)
    case (Inl e)
    with assms(2) Set answer res have "w' = w1"
      by (cases e) (simp_all add: XPASet1_defined [OF d])
    with c1 show ?thesis
      by simp
  next
    case (Inr h)
    with assms(2) Set answer res
    obtain l where "w' = w1\<lparr>calls := calls w1 @ [Call_XPASet h xtemplate paramlist mode buf l]\<rparr>"
      by (auto simp: XPASet1_defined [OF d] split: if_splits)
    then show ?thesis
      using consistent_request [OF c1, of "Call_XPASet h xtemplate paramlist mode buf l" w']
      by simp
  qed
next
  case (SetFd xpa xtemplate paramlist mode fd opened answer)
  obtain n err where answer: "answer = (n, err)"
    by (cases answer)
  obtain r w1 where res: "resolve xpa opened w = (r, w1)"
    by (cases "resolve xpa opened w")
  from consistent_resolve [OF assms(1), of xpa opened] res have c1: "consistent w1"
    by simp
  show ?thesis
  proof (cases r)
    case (Inl e)
    with assms(2) SetFd answer res have "w' = w1"
      by (cases e) (simp_all add: XPASetFd1_cases)
    with c1 show ?thesis
      by simp
  next
    case (Inr h)
    with assms(2) SetFd answer res
    have "w' = w1\<lparr>calls := calls w1 @ [Call_XPASetFd h xtemplate paramlist mode fd]\<rparr>"
      by (auto simp: XPASetFd1_cases split: if_splits)
    then show ?thesis
      using consistent_request [OF c1, of "Call_XPASetFd h xtemplate paramlist mode fd" w']
      by simp
  qed
qed

lemma consistent_run:
  "consistent w \<Longrightarrow> run xs w = Some w' \<Longrightarrow> consistent w'"
proof (induction xs arbitrary: w)
  case Nil
  then show ?case
    by simp
next
  case (Cons x xs)
  then show ?case
    by (auto split: option.splits dest: consistent_step)
qed

text \<open>
  C7. After any sequence of \<open>acquire\<close>, \<open>reset\<close>, \<open>get\<close>, \<open>set\<close> and \<open>setFd\<close> operations
  from the initial state, at every moment of the transport history (after its first \<open>k\<close>
  calls, for every \<open>k\<close>) at most one session opened by the connector is open.
\<close>

theorem at_most_one_session:
  assumes "run ops initial = Some w"
  shows "length (open_sessions (take k (calls w))) \<le> 1"
proof -
  from consistent_run [OF consistent_initial assms] have "never_two (calls w)"
    by (simp add: consistent_def)
  then show ?thesis
    by (simp add: never_two_def)
qed

theorem at_most_one_session_witness:
  "run [Get None (literal ''ds9'') (literal ''frame 1'') (literal []) (Some 1)
          (1, literal ''1'', None),
        Reset (Some 2),
        Set None (literal ''ds9'') (literal ''fits'') (literal []) (literal ''abc'') (- 1) None
          (0, None),
        Reset None,
        Acquire (Some 3)] initial
     = Some \<lparr>singleton = True, myXPA_xpa = Some 3,
        calls = [Call_XPAOpen (literal ''w'') (Some 1),
                 Call_XPAGet (Some 1) (literal ''ds9'') (literal ''frame 1'') (literal []),
                 Call_XPAClose (Some 1),
                 Call_XPAOpen (literal ''w'') (Some 2),
                 Call_XPASet (Some 2) (literal ''ds9'') (literal ''fits'') (literal [])
                   (literal ''abc'') 3,
                 Call_XPAClose (Some 2),
                 Call_XPAOpen (literal ''w'') None,
                 Call_XPAOpen (literal ''w'') (Some 3)]\<rparr>
   \<and> length (open_sessions (take 4
        [Call_XPAOpen (literal ''w'') (Some 1),
         Call_XPAGet (Some 1) (literal ''ds9'') (literal ''frame 1'') (literal []),
         Call_XPAClose (Some 1),
         Call_XPAOpen (literal ''w'') (Some 2),
         Call_XPASet (Some 2) (literal ''ds9'') (literal ''fits'') (literal [])
           (literal ''abc'') 3,
         Call_XPAClose (Some 2),
         Call_XPAOpen (literal ''w'') None,
         Call_XPAOpen (literal ''w'') (Some 3)])) \<le> 1"
proof -
  have s: "strlen (literal ''abc'') = Some 3"
    by (simp add: literal_def NUL_def)
  have r: "run [Get None (literal ''ds9'') (literal ''frame 1'') (literal []) (Some 1)
          (1, literal ''1'', None),
        Reset (Some 2),
        Set None (literal ''ds9'') (literal ''fits'') (literal []) (literal ''abc'') (- 1) None
          (0, None),
        Reset None,
        Acquire (Some 3)] initial
     = Some \<lparr>singleton = True, myXPA_xpa = Some 3,
        calls = [Call_XPAOpen (literal ''w'') (Some 1),
                 Call_XPAGet (Some 1) (literal ''ds9'') (literal ''frame 1'') (literal []),
                 Call_XPAClose (Some 1),
                 Call_XPAOpen (literal ''w'') (Some 2),
                 Call_XPASet (Some 2) (literal ''ds9'') (literal ''fits'') (literal [])
                   (literal ''abc'') 3,
                 Call_XPAClose (Some 2),
                 Call_XPAOpen (literal ''w'') None,
                 Call_XPAOpen (literal ''w'') (Some 3)]\<rparr>"
    by (simp add: XPAGet1_cases XPASet1_defined s resolve_cases reset_def myXPA_get_True
          acquire_def myXPA_get_False initial_def)
  from at_most_one_session [OF r, of 4] r show ?thesis
    by simp
qed

text \<open>
  C9 as stated fails at process exit: a program that makes one \<open>get\<close> and ends has opened
  session 1 and never closes it. The whole transport history of the run, exit included,
  holds no \<^verbatim>\<open>XPAClose\<close>, and the session is still open at the end of it.
\<close>

theorem exit_counterexample:
  "run [Get None (literal ''ds9'') (literal ''frame 1'') (literal []) (Some 1)
          (1, literal ''1'', None)] initial
     = Some \<lparr>singleton = True, myXPA_xpa = Some 1,
        calls = [Call_XPAOpen (literal ''w'') (Some 1),
                 Call_XPAGet (Some 1) (literal ''ds9'') (literal ''frame 1'') (literal [])]\<rparr>
   \<and> calls (process_exit \<lparr>singleton = True, myXPA_xpa = Some 1,
        calls = [Call_XPAOpen (literal ''w'') (Some 1),
                 Call_XPAGet (Some 1) (literal ''ds9'') (literal ''frame 1'') (literal [])]\<rparr>)
     = [Call_XPAOpen (literal ''w'') (Some 1),
        Call_XPAGet (Some 1) (literal ''ds9'') (literal ''frame 1'') (literal [])]
   \<and> open_sessions (calls (process_exit \<lparr>singleton = True, myXPA_xpa = Some 1,
        calls = [Call_XPAOpen (literal ''w'') (Some 1),
                 Call_XPAGet (Some 1) (literal ''ds9'') (literal ''frame 1'') (literal [])]\<rparr>))
     = [1]"
  by (simp add: XPAGet1_cases resolve_cases initial_def process_exit_def open_sessions_def)

text \<open>
  C9, amended. Over any sequence of operations from the initial state, every \<^verbatim>\<open>XPAClose\<close>
  is given a session that is open at that moment, so no session is closed twice; the
  successful opens are the closes plus the one session still stored, if any. Process exit
  makes no transport call: a session still stored then is left open.
\<close>

theorem sessions_closed_at_most_once:
  assumes "run ops initial = Some w"
  shows "closes_open [] (calls w)
       \<and> length (filter is_opened (calls w))
           = length (filter is_close (calls w)) + (if singleton w then 1 else 0)
       \<and> calls (process_exit w) = calls w
       \<and> open_sessions (calls (process_exit w))
           = (if singleton w then (case myXPA_xpa w of None \<Rightarrow> [] | Some h \<Rightarrow> [h]) else [])
       \<and> (singleton w \<longrightarrow> myXPA_xpa w \<noteq> None)"
  using consistent_run [OF consistent_initial assms]
  by (auto simp: consistent_def process_exit_def)

theorem sessions_closed_at_most_once_witness:
  "run [Acquire (Some 1), Reset (Some 2), Reset None, Reset (Some 1)] initial
     = Some \<lparr>singleton = True, myXPA_xpa = Some 1,
        calls = [Call_XPAOpen (literal ''w'') (Some 1),
                 Call_XPAClose (Some 1),
                 Call_XPAOpen (literal ''w'') (Some 2),
                 Call_XPAClose (Some 2),
                 Call_XPAOpen (literal ''w'') None,
                 Call_XPAOpen (literal ''w'') (Some 1)]\<rparr>
   \<and> closes_open []
        [Call_XPAOpen (literal ''w'') (Some 1),
         Call_XPAClose (Some 1),
         Call_XPAOpen (literal ''w'') (Some 2),
         Call_XPAClose (Some 2),
         Call_XPAOpen (literal ''w'') None,
         Call_XPAOpen (literal ''w'') (Some 1)]
   \<and> open_sessions (calls (process_exit \<lparr>singleton = True, myXPA_xpa = Some 1,
        calls = [Call_XPAOpen (literal ''w'') (Some 1),
                 Call_XPAClose (Some 1),
                 Call_XPAOpen (literal ''w'') (Some 2),
                 Call_XPAClose (Some 2),
                 Call_XPAOpen (literal ''w'') None,
                 Call_XPAOpen (literal ''w'') (Some 1)]\<rparr>)) = [1]"
proof -
  have r: "run [Acquire (Some 1), Reset (Some 2), Reset None, Reset (Some 1)] initial
     = Some \<lparr>singleton = True, myXPA_xpa = Some 1,
        calls = [Call_XPAOpen (literal ''w'') (Some 1),
                 Call_XPAClose (Some 1),
                 Call_XPAOpen (literal ''w'') (Some 2),
                 Call_XPAClose (Some 2),
                 Call_XPAOpen (literal ''w'') None,
                 Call_XPAOpen (literal ''w'') (Some 1)]\<rparr>"
    by (simp add: reset_def myXPA_get_True acquire_def myXPA_get_False initial_def)
  from sessions_closed_at_most_once [OF r] r show ?thesis
    by (simp add: process_exit_def open_sessions_def)
qed

subsection \<open>What the wrappers leave alone\<close>

lemma handle_kept_resolve:
  "handle_kept xpa opened w (snd (resolve xpa opened w))"
  by (simp add: handle_kept_def resolve_cases)

lemma handle_kept_request:
  assumes "handle_kept xpa opened w w1" and "\<not> is_close c"
  shows "handle_kept xpa opened w (w1\<lparr>calls := calls w1 @ [c]\<rparr>)"
  using assms by (auto simp: handle_kept_def)

text \<open>
  C8. Whatever the outcome of a wrapper call (a thrown \<^verbatim>\<open>IoError\<close>, a returned error
  string, or success), it calls no \<^verbatim>\<open>XPAClose\<close>; a handle stored before the call is
  still stored, the same, after it; a call given an explicit handle does not touch the
  stored one; and the stored handle after the call is the one handle resolution left,
  which the request and its failure do not change. \<open>acquire()\<close> calls no \<^verbatim>\<open>XPAClose\<close>
  either, and process exit makes no transport call: \<open>reset()\<close> is the only operation
  that closes.
\<close>

theorem wrappers_keep_handle:
  "handle_kept xpa opened w
     (snd (XPAGet1 xpa xtemplate paramlist mode opened (gn, gbuf, gerr) w))
   \<and> handle_kept xpa opened w
       (snd (XPASetFd1 xpa xtemplate paramlist mode fd opened (n, err) w))
   \<and> (0 \<le> sint len \<or> strlen buf \<noteq> None \<longrightarrow>
        handle_kept xpa opened w
          (snd (XPASet1 xpa xtemplate paramlist mode buf len opened (n, err) w)))
   \<and> filter is_close (calls (snd (acquire opened w))) = filter is_close (calls w)
   \<and> calls (process_exit w) = calls w"
proof -
  obtain r w1 where res: "resolve xpa opened w = (r, w1)"
    by (cases "resolve xpa opened w")
  have k1: "handle_kept xpa opened w w1"
    using handle_kept_resolve [of xpa opened w] res by simp
  have k2: "handle_kept xpa opened w (w1\<lparr>calls := calls w1 @ [c]\<rparr>)" if "\<not> is_close c" for c
    using handle_kept_request [OF k1 that] .
  have g: "handle_kept xpa opened w
     (snd (XPAGet1 xpa xtemplate paramlist mode opened (gn, gbuf, gerr) w))"
    using k1 k2 by (cases r) (simp_all add: XPAGet1_cases res)
  have f: "handle_kept xpa opened w
     (snd (XPASetFd1 xpa xtemplate paramlist mode fd opened (n, err) w))"
    using k1 k2 by (cases r) (simp_all add: XPASetFd1_cases res)
  have s: "handle_kept xpa opened w
     (snd (XPASet1 xpa xtemplate paramlist mode buf len opened (n, err) w))"
    if d: "0 \<le> sint len \<or> strlen buf \<noteq> None"
    using k1 k2 by (cases r) (simp_all add: XPASet1_defined [OF d] res)
  have a: "filter is_close (calls (snd (acquire opened w))) = filter is_close (calls w)"
    by (simp add: acquire_def myXPA_get_False)
  show ?thesis
    using g f s a by (simp add: process_exit_def)
qed

theorem wrappers_keep_handle_witness:
  "XPAGet1 None (literal ''ds9'') (literal ''frame 1'') (literal []) (Some 2) (0, None, None)
      \<lparr>singleton = True, myXPA_xpa = Some 1,
         calls = [Call_XPAOpen (literal ''w'') (Some 1)]\<rparr>
     = (Inl (IoError ''XPAGet returned 0''),
        \<lparr>singleton = True, myXPA_xpa = Some 1,
           calls = [Call_XPAOpen (literal ''w'') (Some 1),
                    Call_XPAGet (Some 1) (literal ''ds9'') (literal ''frame 1'') (literal [])]\<rparr>)
   \<and> handle_kept None (Some 2)
        \<lparr>singleton = True, myXPA_xpa = Some 1,
           calls = [Call_XPAOpen (literal ''w'') (Some 1)]\<rparr>
        \<lparr>singleton = True, myXPA_xpa = Some 1,
           calls = [Call_XPAOpen (literal ''w'') (Some 1),
                    Call_XPAGet (Some 1) (literal ''ds9'') (literal ''frame 1'') (literal [])]\<rparr>
   \<and> 0 \<le> sint (3 :: cint)
   \<and> XPASet1 None (literal ''ds9'') (literal ''fits'') (literal []) (literal ''abc'') 3 (Some 2)
        (1, literal ''XPA$ERROR no data'')
        \<lparr>singleton = True, myXPA_xpa = Some 1,
           calls = [Call_XPAOpen (literal ''w'') (Some 1)]\<rparr>
     = (Inr (literal ''XPA$ERROR no data''),
        \<lparr>singleton = True, myXPA_xpa = Some 1,
           calls = [Call_XPAOpen (literal ''w'') (Some 1),
                    Call_XPASet (Some 1) (literal ''ds9'') (literal ''fits'') (literal [])
                      (literal ''abc'') 3]\<rparr>)
   \<and> handle_kept None (Some 2)
        \<lparr>singleton = True, myXPA_xpa = Some 1,
           calls = [Call_XPAOpen (literal ''w'') (Some 1)]\<rparr>
        \<lparr>singleton = True, myXPA_xpa = Some 1,
           calls = [Call_XPAOpen (literal ''w'') (Some 1),
                    Call_XPASet (Some 1) (literal ''ds9'') (literal ''fits'') (literal [])
                      (literal ''abc'') 3]\<rparr>"
proof -
  let ?w = "\<lparr>singleton = True, myXPA_xpa = Some 1,
         calls = [Call_XPAOpen (literal ''w'') (Some 1)]\<rparr>"
  have g: "XPAGet1 None (literal ''ds9'') (literal ''frame 1'') (literal []) (Some 2)
      (0, None, None) ?w
     = (Inl (IoError ''XPAGet returned 0''),
        \<lparr>singleton = True, myXPA_xpa = Some 1,
           calls = [Call_XPAOpen (literal ''w'') (Some 1),
                    Call_XPAGet (Some 1) (literal ''ds9'') (literal ''frame 1'') (literal [])]\<rparr>)"
    by (simp add: XPAGet1_cases resolve_cases)
  have s: "XPASet1 None (literal ''ds9'') (literal ''fits'') (literal []) (literal ''abc'') 3
        (Some 2) (1, literal ''XPA$ERROR no data'') ?w
     = (Inr (literal ''XPA$ERROR no data''),
        \<lparr>singleton = True, myXPA_xpa = Some 1,
           calls = [Call_XPAOpen (literal ''w'') (Some 1),
                    Call_XPASet (Some 1) (literal ''ds9'') (literal ''fits'') (literal [])
                      (literal ''abc'') 3]\<rparr>)"
    by (simp add: XPASet1_defined resolve_cases literal_def)
  have d: "0 \<le> sint (3 :: cint)"
    by simp
  from wrappers_keep_handle [of None "Some 2" ?w "literal ''ds9''" "literal ''frame 1''"
      "literal []" 0 None None 5 1 "literal ''XPA$ERROR no data''" 3 "literal ''abc''"]
  have "handle_kept None (Some 2) ?w
     (snd (XPAGet1 None (literal ''ds9'') (literal ''frame 1'') (literal []) (Some 2)
        (0, None, None) ?w))"
    by blast
  moreover
  from wrappers_keep_handle [of None "Some 2" ?w "literal ''ds9''" "literal ''fits''"
      "literal []" 0 None None 5 1 "literal ''XPA$ERROR no data''" 3 "literal ''abc''"] d
  have "handle_kept None (Some 2) ?w
     (snd (XPASet1 None (literal ''ds9'') (literal ''fits'') (literal []) (literal ''abc'') 3
        (Some 2) (1, literal ''XPA$ERROR no data'') ?w))"
    by blast
  ultimately show ?thesis
    using g s d by simp
qed

end
